theory Spec2Isabelle
  imports Main
begin

section \<open>Python values used by both surfaces\<close>

subsection \<open>Strings: \<^verbatim>\<open>str(int)\<close>, \<^verbatim>\<open>repr(list)\<close>, \<^verbatim>\<open>str.split()\<close>\<close>

text \<open>
  Python strings are modelled as \<^typ>\<open>string\<close>; a character is one code point below 256.
  \<^verbatim>\<open>str.isspace\<close> on that range holds for TAB..CR, FS..US, SPACE, NEL and NBSP.
\<close>

definition isspace :: "char \<Rightarrow> bool" where
  "isspace c = (c \<in> set [CHR 0x09, CHR 0x0A, CHR 0x0B, CHR 0x0C, CHR 0x0D,
                         CHR 0x1C, CHR 0x1D, CHR 0x1E, CHR 0x1F, CHR 0x20,
                         CHR 0x85, CHR 0xA0])"

text \<open>
  \<^verbatim>\<open>s.split()\<close> with no separator: runs of whitespace separate the tokens, leading and
  trailing whitespace gives no empty token. The first argument is the token being read.
\<close>

fun split_from :: "string \<Rightarrow> string \<Rightarrow> string list" where
  "split_from tok [] = (if tok = [] then [] else [tok])"
| "split_from tok (c # cs) =
     (if isspace c
      then (if tok = [] then split_from [] cs else tok # split_from [] cs)
      else split_from (tok @ [c]) cs)"

definition str_split :: "string \<Rightarrow> string list" where
  "str_split s = split_from [] s"

text \<open>
  A token string as it is stored: leading whitespace, then each token followed by
  whitespace. It is well delimited when the tokens are not empty and hold no whitespace, the
  separators hold whitespace only, and every token but the last is followed by at least
  one whitespace character.
\<close>

definition is_token :: "string \<Rightarrow> bool" where
  "is_token t = (t \<noteq> [] \<and> \<not> list_ex isspace t)"

fun delimited :: "string \<Rightarrow> (string \<times> string) list \<Rightarrow> string" where
  "delimited lead [] = lead"
| "delimited lead ((t, ws) # rest) = lead @ t @ delimited ws rest"

definition well_delimited :: "string \<Rightarrow> (string \<times> string) list \<Rightarrow> bool" where
  "well_delimited lead tws =
     (list_all isspace lead \<and>
      list_all is_token (map fst tws) \<and>
      list_all (list_all isspace) (map snd tws) \<and>
      [] \<notin> set (map snd (butlast tws)))"

definition digit_char :: "nat \<Rightarrow> char" where
  "digit_char d = ''0123456789'' ! d"

fun str_nat :: "nat \<Rightarrow> string" where
  "str_nat n = (if n < 10 then [digit_char n] else str_nat (n div 10) @ [digit_char (n mod 10)])"

declare str_nat.simps [simp del]

definition str_int :: "int \<Rightarrow> string" where
  "str_int i = (if i < 0 then ''-'' @ str_nat (nat (- i)) else str_nat (nat i))"

fun join :: "string \<Rightarrow> string list \<Rightarrow> string" where
  "join sep [] = []"
| "join sep [x] = x"
| "join sep (x # y # ys) = x @ sep @ join sep (y # ys)"

definition repr_int_list :: "int list \<Rightarrow> string" where
  "repr_int_list xs = ''['' @ join '', '' (map str_int xs) @ '']''"

definition repr_int_list_list :: "int list list \<Rightarrow> string" where
  "repr_int_list_list xss = ''['' @ join '', '' (map repr_int_list xss) @ '']''"

subsection \<open>Exceptions\<close>

text \<open>
  A raised Python exception: the names of its class and of the classes it inherits from
  (what \<^verbatim>\<open>isinstance\<close> and \<^verbatim>\<open>except\<close> look at), the text \<^verbatim>\<open>str(exc)\<close> and the
  formatted traceback.
\<close>

record py_exception =
  exc_classes :: "string list"
  exc_str :: string
  exc_traceback :: string

definition isinstance :: "py_exception \<Rightarrow> string \<Rightarrow> bool" where
  "isinstance e cls = (cls \<in> set (exc_classes e))"

definition AttributeError :: "string \<Rightarrow> py_exception" where
  "AttributeError msg =
     \<lparr>exc_classes = [''AttributeError'', ''Exception'', ''BaseException''],
      exc_str = msg, exc_traceback = []\<rparr>"

definition KeyError :: "string \<Rightarrow> py_exception" where
  "KeyError msg =
     \<lparr>exc_classes = [''KeyError'', ''LookupError'', ''Exception'', ''BaseException''],
      exc_str = msg, exc_traceback = []\<rparr>"

definition TypeError :: "string \<Rightarrow> py_exception" where
  "TypeError msg =
     \<lparr>exc_classes = [''TypeError'', ''Exception'', ''BaseException''],
      exc_str = msg, exc_traceback = []\<rparr>"

definition NoneType_has_no_attribute :: "string \<Rightarrow> py_exception" where
  "NoneType_has_no_attribute attr =
     AttributeError ([CHR 0x27] @ ''NoneType'' @ [CHR 0x27] @ '' object has no attribute ''
                     @ [CHR 0x27] @ attr @ [CHR 0x27])"

subsection \<open>The chat platform's objects\<close>

record role =
  role_id :: int
  role_name :: string
  role_position :: int

record member =
  member_id :: int
  top_role :: role

text \<open>\<^verbatim>\<open>members\<close> is the guild's member cache, \<^verbatim>\<open>guild.get_member\<close> reads it.\<close>

record guild =
  guild_id :: int
  roles :: "role list"
  members :: "(int \<times> member) list"

subsection \<open>Observable effects\<close>

datatype level = DEBUG | INFO | WARNING | ERROR | CRITICAL

record db_game =
  game_id :: int
  game_notes :: string

text \<open>
  Everything a handler does besides returning: log records, the remote member fetch, the
  calls to the persistence layer, and on the command surface the text printed, the reply
  sent to the invoking channel, and the dispatch of the command itself.
\<close>

datatype effect =
    Log level string
  | Authenticate string
  | FetchMember int int
  | CreateGame "member list list" int string bool bool
  | SaveGame db_game
  | GetUser int
  | GetGame int
  | Print string
  | Send string
  | Dispatch string
  | DbClose

section \<open>The HTTP API (\<^verbatim>\<open>modules/api.py\<close>)\<close>

subsection \<open>Requests, failures and the collaborators\<close>

text \<open>
  A request either returns a value or raises. \<^verbatim>\<open>HTTPException\<close> is FastAPI's exception
  (status code, detail, headers; no headers is the empty list); a body that does not
  validate against the declared model is refused by the framework with 422 before the
  handler runs; any other exception leaves the handler uncaught and the framework answers
  500.
\<close>

datatype raised =
    HTTPException nat string "(string \<times> string) list"
  | RequestValidationError
  | Uncaught py_exception

fun status_of :: "raised \<Rightarrow> nat" where
  "status_of (HTTPException code _ _) = code"
| "status_of RequestValidationError = 422"
| "status_of (Uncaught _) = 500"

fun headers_of :: "raised \<Rightarrow> (string \<times> string) list" where
  "headers_of (HTTPException _ _ hs) = hs"
| "headers_of RequestValidationError = []"
| "headers_of (Uncaught _) = []"

datatype json = JInt int | JStr string | JBool bool | JList "json list"
  | JObject "(string \<times> json) list"

record HTTPBasicCredentials =
  username :: string
  password :: string

record ApiApplication =
  scopes :: string

record NewGame =
  game_name :: string
  new_guild_id :: int
  is_ranked :: bool
  is_mobile :: bool
  new_notes :: string
  sides_discord_ids :: "int list list"

text \<open>
  The request body before validation: every field may be absent. The class \<^verbatim>\<open>NewGame\<close>
  declares \<^verbatim>\<open>is_ranked = False\<close>, \<^verbatim>\<open>is_mobile = True\<close> and \<^verbatim>\<open>notes = ''\<close>; the other
  three fields have no default, and a body without one of them is refused (422) before the
  handler runs.
\<close>

record request_body =
  body_game_name :: "string option"
  body_guild_id :: "int option"
  body_is_ranked :: "bool option"
  body_is_mobile :: "bool option"
  body_notes :: "string option"
  body_sides_discord_ids :: "int list list option"

definition parse_NewGame :: "request_body \<Rightarrow> NewGame option" where
  "parse_NewGame b =
     (case (body_game_name b, body_guild_id b, body_sides_discord_ids b) of
        (Some n, Some g, Some ss) \<Rightarrow>
          Some \<lparr>game_name = n, new_guild_id = g,
                is_ranked = (case body_is_ranked b of None \<Rightarrow> False | Some r \<Rightarrow> r),
                is_mobile = (case body_is_mobile b of None \<Rightarrow> True | Some m \<Rightarrow> m),
                new_notes = (case body_notes b of None \<Rightarrow> [] | Some t \<Rightarrow> t),
                sides_discord_ids = ss\<rparr>
      | _ \<Rightarrow> None)"

text \<open>
  The modules \<^verbatim>\<open>models\<close> (persistence) and the chat client are collaborators of this
  file, taken as parameters: the credential store's \<^verbatim>\<open>ApiApplication.authenticate\<close>; the
  client's guild cache and the remote \<^verbatim>\<open>guild.fetch_member\<close>, which returns a member or
  raises; \<^verbatim>\<open>Game.create_game\<close>, which returns the record with its warnings or raises, and
  \<^verbatim>\<open>db_game.save()\<close>, both acting on a store of type \<^typ>\<open>'db\<close>; the two lookups
  \<^verbatim>\<open>get_or_none\<close> with their \<^verbatim>\<open>as_json\<close>.
\<close>

record 'db api_env =
  authenticate :: "string \<Rightarrow> string \<Rightarrow> ApiApplication option"
  client_guilds :: "(int \<times> guild) list"
  fetch_member :: "int \<Rightarrow> int \<Rightarrow> py_exception + member"
  create_game :: "member list list \<Rightarrow> int \<Rightarrow> string \<Rightarrow> bool \<Rightarrow> bool \<Rightarrow> 'db
                  \<Rightarrow> (py_exception + db_game \<times> string list) \<times> 'db"
  save :: "db_game \<Rightarrow> 'db \<Rightarrow> (py_exception + unit) \<times> 'db"
  user_get_or_none :: "int \<Rightarrow> 'db \<Rightarrow> int option"
  user_as_json :: "int \<Rightarrow> bool \<Rightarrow> 'db \<Rightarrow> json"
  game_get_or_none :: "int \<Rightarrow> 'db \<Rightarrow> int option"
  game_as_json :: "int \<Rightarrow> 'db \<Rightarrow> json"

record 'db world =
  db :: 'db
  effects :: "effect list"

definition emit :: "effect list \<Rightarrow> 'db world \<Rightarrow> 'db world" where
  "emit es w = w\<lparr>effects := effects w @ es\<rparr>"

subsection \<open>\<^verbatim>\<open>get_discord_member\<close>\<close>

definition get_discord_member ::
  "'db api_env \<Rightarrow> int \<Rightarrow> int \<Rightarrow> 'db world \<Rightarrow> (raised + member) \<times> 'db world" where
  "get_discord_member env gid user_id w =
     (case map_of (client_guilds env) gid of
        None \<Rightarrow>
          (Inl (HTTPException 404 (''Discord guild not found by ID '' @ str_int gid @ ''.'') []), w)
      | Some g \<Rightarrow>
          (case map_of (members g) user_id of
             Some m \<Rightarrow> (Inr m, w)
           | None \<Rightarrow>
               (case fetch_member env gid user_id of
                  Inl e \<Rightarrow>
                    if isinstance e ''discord.HTTPException''
                    then (Inl (HTTPException 404
                                 (''Discord member not found by ID '' @ str_int user_id @ ''.'') []),
                          emit [FetchMember gid user_id] w)
                    else (Inl (Uncaught e), emit [FetchMember gid user_id] w)
                | Inr m \<Rightarrow> (Inr m, emit [FetchMember gid user_id] w))))"

subsection \<open>\<^verbatim>\<open>get_scopes\<close>\<close>

definition get_scopes ::
  "'db api_env \<Rightarrow> HTTPBasicCredentials \<Rightarrow> 'db world \<Rightarrow> (raised + string list) \<times> 'db world" where
  "get_scopes env credentials w =
     (case authenticate env (username credentials) (password credentials) of
        Some app \<Rightarrow>
          (Inr (str_split (scopes app)),
           emit [Authenticate (username credentials),
                 Log INFO (''Successful app authentication for user '' @ username credentials)] w)
      | None \<Rightarrow>
          (Inl (HTTPException 401 ''Incorrect app ID or token.'' [(''WWW-Authenticate'', ''Basic'')]),
           emit [Authenticate (username credentials),
                 Log WARNING (''Failed app authentication attempted with user ''
                              @ username credentials)] w))"

subsection \<open>\<^verbatim>\<open>get_user\<close> and \<^verbatim>\<open>get_game\<close>\<close>

definition get_user ::
  "'db api_env \<Rightarrow> int \<Rightarrow> string list \<Rightarrow> 'db world \<Rightarrow> (raised + json) \<times> 'db world" where
  "get_user env discord_id scps w =
     (if ''users:read'' \<notin> set scps
      then (Inl (HTTPException 403 ''Not authorised for scope users:read.'' []),
            emit [Log WARNING (''FAILED users:read call attempted on discord_id ''
                               @ str_int discord_id)] w)
      else (case user_get_or_none env discord_id (db w) of
              Some u \<Rightarrow>
                (Inr (user_as_json env u (''games:read'' \<in> set scps) (db w)),
                 emit [GetUser discord_id,
                       Log INFO (''users:read call returned on discord_id '' @ str_int discord_id)] w)
            | None \<Rightarrow>
                (Inl (HTTPException 404 ''User not found.'' []),
                 emit [GetUser discord_id,
                       Log DEBUG (''Failed (not found) users:read call attempted on discord_id ''
                                  @ str_int discord_id)] w)))"

definition get_game ::
  "'db api_env \<Rightarrow> int \<Rightarrow> string list \<Rightarrow> 'db world \<Rightarrow> (raised + json) \<times> 'db world" where
  "get_game env gm_id scps w =
     (if ''games:read'' \<notin> set scps
      then (Inl (HTTPException 403 ''Not authorised for scope games:read.'' []),
            emit [Log WARNING (''FAILED games:read call attempted on game_id '' @ str_int gm_id)] w)
      else (case game_get_or_none env gm_id (db w) of
              Some g \<Rightarrow>
                (Inr (game_as_json env g (db w)),
                 emit [GetGame gm_id,
                       Log INFO (''games:read call returned on game_id '' @ str_int gm_id)] w)
            | None \<Rightarrow>
                (Inl (HTTPException 404 ''Game not found.'' []),
                 emit [GetGame gm_id,
                       Log DEBUG (''Failed (not found) games:read call attempted on game_id ''
                                  @ str_int gm_id)] w)))"

subsection \<open>\<^verbatim>\<open>new_game\<close>\<close>

text \<open>The inner loop over one side, and the outer loop over the sides.\<close>

fun resolve_side ::
  "'db api_env \<Rightarrow> int \<Rightarrow> int list \<Rightarrow> 'db world \<Rightarrow> (raised + member list) \<times> 'db world" where
  "resolve_side env gid [] w = (Inr [], w)"
| "resolve_side env gid (discord_id # rest) w =
     (case get_discord_member env gid discord_id w of
        (Inl e, w') \<Rightarrow> (Inl e, w')
      | (Inr user, w') \<Rightarrow>
          (case resolve_side env gid rest w' of
             (Inl e, w'') \<Rightarrow> (Inl e, w'')
           | (Inr users, w'') \<Rightarrow> (Inr (user # users), w'')))"

fun resolve_sides ::
  "'db api_env \<Rightarrow> int \<Rightarrow> int list list \<Rightarrow> 'db world \<Rightarrow> (raised + member list list) \<times> 'db world" where
  "resolve_sides env gid [] w = (Inr [], w)"
| "resolve_sides env gid (side # rest) w =
     (case resolve_side env gid side w of
        (Inl e, w') \<Rightarrow> (Inl e, w')
      | (Inr discord_user_side, w') \<Rightarrow>
          (case resolve_sides env gid rest w' of
             (Inl e, w'') \<Rightarrow> (Inl e, w'')
           | (Inr discord_user_sides, w'') \<Rightarrow>
               (Inr (discord_user_side # discord_user_sides), w'')))"

text \<open>The note is attached by assigning the field and saving the record.\<close>

definition attach_notes ::
  "'db api_env \<Rightarrow> NewGame \<Rightarrow> db_game \<Rightarrow> 'db world \<Rightarrow> (raised + db_game) \<times> 'db world" where
  "attach_notes env game db_gm w =
     (if new_notes game \<noteq> []
      then (let g' = db_gm\<lparr>game_notes := new_notes game\<rparr> in
            case save env g' (db w) of
              (Inl e, d') \<Rightarrow> (Inl (Uncaught e), emit [SaveGame g'] (w\<lparr>db := d'\<rparr>))
            | (Inr _, d') \<Rightarrow> (Inr g', emit [SaveGame g'] (w\<lparr>db := d'\<rparr>)))
      else (Inr db_gm, w))"

definition new_game ::
  "'db api_env \<Rightarrow> NewGame \<Rightarrow> string list \<Rightarrow> 'db world \<Rightarrow> (raised + json) \<times> 'db world" where
  "new_game env game scps w =
     (let w1 = emit [Log INFO (''games-write attempted with game info: '' @ game_name game
                              @ '' / '' @ str_int (new_guild_id game)
                              @ '' / '' @ repr_int_list_list (sides_discord_ids game))] w in
      if ''games:new'' \<notin> set scps
      then (Inl (HTTPException 403 ''Not authorised for scope games:new.'' []),
            emit [Log WARNING ''FAILED games:write call (unauthorized)''] w1)
      else
        (case resolve_sides env (new_guild_id game) (sides_discord_ids game) w1 of
           (Inl e, w2) \<Rightarrow> (Inl e, w2)
         | (Inr discord_user_sides, w2) \<Rightarrow>
             (let call = CreateGame discord_user_sides (new_guild_id game) (game_name game)
                                    (is_ranked game) (is_mobile game) in
              case create_game env discord_user_sides (new_guild_id game) (game_name game)
                               (is_ranked game) (is_mobile game) (db w2) of
                (Inl e, d3) \<Rightarrow>
                  if isinstance e ''ValueError''
                  then (Inl (HTTPException 400 (exc_str e) []),
                        emit [call, Log ERROR (''FAILED games:write call (creation error): ''
                                               @ exc_str e)] (w2\<lparr>db := d3\<rparr>))
                  else (Inl (Uncaught e), emit [call] (w2\<lparr>db := d3\<rparr>))
              | (Inr (db_gm, warnings_), d3) \<Rightarrow>
                  (case attach_notes env game db_gm (emit [call] (w2\<lparr>db := d3\<rparr>)) of
                     (Inl e, w4) \<Rightarrow> (Inl e, w4)
                   | (Inr db_gm', w4) \<Rightarrow>
                       (Inr (JObject [(''game_id'', JInt (game_id db_gm'))]),
                        emit [Log INFO (''Game ID '' @ str_int (game_id db_gm')
                                        @ '' created successfully'')] w4)))))"

subsection \<open>The three routes: the scopes dependency runs first, then the handler\<close>

definition route_get_user ::
  "'db api_env \<Rightarrow> HTTPBasicCredentials \<Rightarrow> int \<Rightarrow> 'db world \<Rightarrow> (raised + json) \<times> 'db world" where
  "route_get_user env credentials discord_id w =
     (case get_scopes env credentials w of
        (Inl e, w') \<Rightarrow> (Inl e, w')
      | (Inr scps, w') \<Rightarrow> get_user env discord_id scps w')"

definition route_get_game ::
  "'db api_env \<Rightarrow> HTTPBasicCredentials \<Rightarrow> int \<Rightarrow> 'db world \<Rightarrow> (raised + json) \<times> 'db world" where
  "route_get_game env credentials gm_id w =
     (case get_scopes env credentials w of
        (Inl e, w') \<Rightarrow> (Inl e, w')
      | (Inr scps, w') \<Rightarrow> get_game env gm_id scps w')"

definition route_new_game ::
  "'db api_env \<Rightarrow> HTTPBasicCredentials \<Rightarrow> request_body \<Rightarrow> 'db world
   \<Rightarrow> (raised + json) \<times> 'db world" where
  "route_new_game env credentials body w =
     (case get_scopes env credentials w of
        (Inl e, w') \<Rightarrow> (Inl e, w')
      | (Inr scps, w') \<Rightarrow>
          (case parse_NewGame body of
             None \<Rightarrow> (Inl RequestValidationError, w')
           | Some game \<Rightarrow> new_game env game scps w'))"

subsection \<open>Reading the effects of a run\<close>

text \<open>The remote calls and the mutations of the store among the effects.\<close>

fun is_fetch :: "effect \<Rightarrow> bool" where
  "is_fetch (FetchMember _ _) = True"
| "is_fetch _ = False"

fun is_mutation :: "effect \<Rightarrow> bool" where
  "is_mutation (CreateGame _ _ _ _ _) = True"
| "is_mutation (SaveGame _) = True"
| "is_mutation _ = False"

fun is_create :: "effect \<Rightarrow> bool" where
  "is_create (CreateGame _ _ _ _ _) = True"
| "is_create _ = False"

fun is_save :: "effect \<Rightarrow> bool" where
  "is_save (SaveGame _) = True"
| "is_save _ = False"

fun is_dispatch :: "effect \<Rightarrow> bool" where
  "is_dispatch (Dispatch _) = True"
| "is_dispatch _ = False"

text \<open>The texts sent to the invoking channel, in order.\<close>

fun replies :: "effect list \<Rightarrow> string list" where
  "replies [] = []"
| "replies (Send t # es) = t # replies es"
| "replies (_ # es) = replies es"

text \<open>The identifiers of a list that the guild's member cache does not hold.\<close>

definition cache_misses :: "'db api_env \<Rightarrow> int \<Rightarrow> int list \<Rightarrow> int list" where
  "cache_misses env gid ids =
     (case map_of (client_guilds env) gid of
        None \<Rightarrow> []
      | Some g \<Rightarrow> filter (\<lambda>u. map_of (members g) u = None) ids)"

text \<open>A create operation with its warnings removed from what it returns.\<close>

definition without_warnings ::
  "(member list list \<Rightarrow> int \<Rightarrow> string \<Rightarrow> bool \<Rightarrow> bool \<Rightarrow> 'db
      \<Rightarrow> (py_exception + db_game \<times> string list) \<times> 'db)
   \<Rightarrow> member list list \<Rightarrow> int \<Rightarrow> string \<Rightarrow> bool \<Rightarrow> bool \<Rightarrow> 'db
      \<Rightarrow> (py_exception + db_game \<times> string list) \<times> 'db" where
  "without_warnings create groups gid name ranked mobile d =
     (case create groups gid name ranked mobile d of
        (Inl e, d') \<Rightarrow> (Inl e, d')
      | (Inr (g, ws), d') \<Rightarrow> (Inr (g, []), d'))"

section \<open>The command surface (\<^verbatim>\<open>bot.py\<close>)\<close>

subsection \<open>Settings, messages and command contexts\<close>

text \<open>
  The module \<^verbatim>\<open>settings\<close> is a collaborator: \<^verbatim>\<open>config\<close> is the dictionary of the
  configured guilds (only its keys are read here), \<^verbatim>\<open>guild_setting\<close> and \<^verbatim>\<open>get_setting\<close>
  are its two accessors, taken as parameters, and \<^verbatim>\<open>server_ids\<close> names the main guild.
\<close>

record settings =
  config :: "(int \<times> (string \<times> string) list) list"
  guild_setting :: "int \<Rightarrow> string \<Rightarrow> string"
  get_setting :: "string \<Rightarrow> string"
  server_ids :: "(string \<times> int) list"

record command =
  qualified_name :: string
  has_on_error :: bool

text \<open>The bot: its own user and the table of the registered commands.\<close>

record bot =
  bot_user_id :: int
  all_commands :: "(string \<times> command) list"

text \<open>
  A message: \<^verbatim>\<open>get_prefix\<close> reads its guild only; the library, which builds the command
  context from it, also reads its author and its content.
\<close>

record message =
  message_guild :: "guild option"

record inbound_message = message +
  message_author :: member
  author_is_bot :: bool
  message_content :: string

record ctx =
  ctx_guild :: "guild option"
  ctx_author :: member
  ctx_command :: "command option"
  invoked_with :: string

definition quoted :: "string \<Rightarrow> string" where
  "quoted s = [CHR 0x27] @ s @ [CHR 0x27]"

subsection \<open>\<^verbatim>\<open>get_prefix\<close>\<close>

text \<open>
  The library's \<^verbatim>\<open>when_mentioned_or(*prefixes)\<close> returns the two mention triggers of the
  bot's own user followed by the given prefixes.
\<close>

definition when_mentioned :: "bot \<Rightarrow> 'a message_scheme \<Rightarrow> string list" where
  "when_mentioned b msg =
     [''<@'' @ str_int (bot_user_id b) @ ''> '', ''<@!'' @ str_int (bot_user_id b) @ ''> '']"

definition when_mentioned_or ::
  "string list \<Rightarrow> bot \<Rightarrow> 'a message_scheme \<Rightarrow> string list" where
  "when_mentioned_or prefixes b msg = when_mentioned b msg @ prefixes"

text \<open>
  \<^verbatim>\<open>message.guild and message.guild.id in settings.config\<close> is false for a message with no
  guild; the \<^verbatim>\<open>else\<close> branch then formats \<^verbatim>\<open>message.guild.id\<close>, which raises.
\<close>

definition get_prefix ::
  "settings \<Rightarrow> bot \<Rightarrow> 'a message_scheme \<Rightarrow> (py_exception + string list) \<times> effect list" where
  "get_prefix s b msg =
     (case message_guild msg of
        Some g \<Rightarrow>
          if guild_id g \<in> set (map fst (config s))
          then (Inr (when_mentioned_or [guild_setting s (guild_id g) ''command_prefix''] b msg), [])
          else (Inr (when_mentioned_or [get_setting s ''command_prefix''] b msg),
                [Log ERROR (''Message received not from allowed guild. ID ''
                            @ str_int (guild_id g))])
      | None \<Rightarrow> (Inl (NoneType_has_no_attribute ''id''), []))"

subsection \<open>The two global checks\<close>

definition globally_block_dms :: "ctx \<Rightarrow> bool" where
  "globally_block_dms c = (ctx_guild c \<noteq> None)"

text \<open>
  The library orders roles of one guild: the guild's default role (whose id is the guild's)
  is below every other, then by position, then by id (the older role is higher).
\<close>

definition role_lt :: "int \<Rightarrow> role \<Rightarrow> role \<Rightarrow> bool" where
  "role_lt gid a b =
     (if role_id a = gid then role_id b \<noteq> gid
      else if role_position a < role_position b then True
      else if role_position a = role_position b then role_id a > role_id b
      else False)"

definition is_user :: "settings \<Rightarrow> ctx \<Rightarrow> (py_exception + bool) \<times> effect list" where
  "is_user s c =
     (case ctx_guild c of
        None \<Rightarrow> (Inl (NoneType_has_no_attribute ''id''), [])
      | Some g \<Rightarrow>
          (case map_of (server_ids s) ''main'' of
             None \<Rightarrow> (Inl (KeyError (quoted ''main'')), [])
           | Some main \<Rightarrow>
               if guild_id g = main
               then (case find (\<lambda>r. role_name r = ''Rider'') (roles g) of
                       None \<Rightarrow>
                         (Inl (TypeError (quoted ''<'' @ '' not supported between instances of ''
                                          @ quoted ''Role'' @ '' and '' @ quoted ''NoneType'')), [])
                     | Some minimum_role \<Rightarrow>
                         if role_lt (guild_id g) (top_role (ctx_author c)) minimum_role
                         then (Inr False,
                               [Send (''You must attain '' @ [CHR 0x22] @ ''Rider'' @ [CHR 0x22]
                                      @ '' role to use this bot'')])
                         else (Inr True, []))
               else (Inr True, [])))"

subsection \<open>\<^verbatim>\<open>on_command_error\<close>\<close>

definition str_command :: "command option \<Rightarrow> string" where
  "str_command c = (case c of None \<Rightarrow> ''None'' | Some cmd \<Rightarrow> qualified_name cmd)"

definition ignored :: "string list" where
  "ignored = [''commands.CommandNotFound'', ''commands.UserInputError'', ''commands.CheckFailure'']"

definition on_command_error :: "ctx \<Rightarrow> py_exception \<Rightarrow> effect list" where
  "on_command_error c exc =
     (if (case ctx_command c of None \<Rightarrow> False | Some cmd \<Rightarrow> has_on_error cmd) then []
      else if list_ex (isinstance exc) ignored
      then [Log WARNING (''Exception on ignored list raised in '' @ str_command (ctx_command c)
                         @ ''. '' @ exc_str exc)]
      else [Log CRITICAL (''Ignoring exception in command '' @ str_command (ctx_command c) @ '': ''
                          @ exc_str exc @ '' '' @ exc_traceback exc),
            Print (''Exception raised. '' @ exc_str exc @ [CHR 0x0A] @ exc_traceback exc),
            Send (''Unhandled error: '' @ exc_str exc)])"

subsection \<open>How the library runs the checks and dispatches a command\<close>

text \<open>
  \<^verbatim>\<open>commands.Bot(command_prefix=get_prefix)\<close>: for every message whose author is not a
  bot, the library's \<^verbatim>\<open>process_commands\<close> builds the context and invokes it. Building
  the context (\<^verbatim>\<open>get_context\<close>) calls \<^verbatim>\<open>get_prefix\<close> first, unless the author is the
  bot itself; an exception of \<^verbatim>\<open>get_prefix\<close> leaves \<^verbatim>\<open>process_commands\<close> and no check
  runs. Otherwise the first of the returned prefixes that the content starts with is
  skipped, the word that follows is \<^verbatim>\<open>invoked_with\<close>, and the command is looked up under
  that word.

  The checks registered with \<^verbatim>\<open>@bot.check\<close> run in the order of registration and stop at
  the first that is false or raises. When one is false the library raises
  \<^verbatim>\<open>CheckFailure\<close>, which reaches \<^verbatim>\<open>on_command_error\<close>, and the command's callback does
  not run; an exception of a check that is no command error leaves \<^verbatim>\<open>invoke\<close>. After a
  callback has run, \<^verbatim>\<open>post_invoke_cleanup\<close> closes the database. A context without a
  command reports \<^verbatim>\<open>CommandNotFound\<close> when \<^verbatim>\<open>invoked_with\<close> is not empty, and does
  nothing otherwise.
\<close>

definition startswith :: "string \<Rightarrow> string \<Rightarrow> bool" where
  "startswith s p = (take (length p) s = p)"

definition get_word :: "string \<Rightarrow> string" where
  "get_word s = takeWhile (\<lambda>c. \<not> isspace c) s"

definition get_context ::
  "settings \<Rightarrow> bot \<Rightarrow> inbound_message \<Rightarrow> (py_exception + ctx) \<times> effect list" where
  "get_context s b msg =
     (let c0 = \<lparr>ctx_guild = message_guild msg, ctx_author = message_author msg,
                ctx_command = None, invoked_with = []\<rparr> in
      if member_id (message_author msg) = bot_user_id b then (Inr c0, [])
      else
        (case get_prefix s b msg of
           (Inl e, es) \<Rightarrow> (Inl e, es)
         | (Inr prefix, es) \<Rightarrow>
             (case find (startswith (message_content msg)) prefix of
                None \<Rightarrow> (Inr c0, es)
              | Some invoked_prefix \<Rightarrow>
                  (let invoker = get_word (drop (length invoked_prefix) (message_content msg)) in
                   (Inr (c0\<lparr>ctx_command := map_of (all_commands b) invoker,
                             invoked_with := invoker\<rparr>), es)))))"

type_synonym bot_check = "ctx \<Rightarrow> (py_exception + bool) \<times> effect list"

fun async_all :: "bot_check list \<Rightarrow> ctx \<Rightarrow> (py_exception + bool) \<times> effect list" where
  "async_all [] c = (Inr True, [])"
| "async_all (f # fs) c =
     (case f c of
        (Inl e, es) \<Rightarrow> (Inl e, es)
      | (Inr ok, es) \<Rightarrow>
          if ok then (case async_all fs c of (r, es') \<Rightarrow> (r, es @ es'))
          else (Inr False, es))"

definition bot_checks :: "settings \<Rightarrow> bot_check list" where
  "bot_checks s = [\<lambda>c. (Inr (globally_block_dms c), []), is_user s]"

definition can_run :: "settings \<Rightarrow> ctx \<Rightarrow> (py_exception + bool) \<times> effect list" where
  "can_run s c = async_all (bot_checks s) c"

definition command_error :: "string \<Rightarrow> string \<Rightarrow> py_exception" where
  "command_error cls msg =
     \<lparr>exc_classes = [cls, ''commands.CommandError'', ''discord.DiscordException'',
                     ''Exception'', ''BaseException''],
      exc_str = msg, exc_traceback = []\<rparr>"

definition invoke :: "settings \<Rightarrow> ctx \<Rightarrow> py_exception option \<times> effect list" where
  "invoke s c =
     (case ctx_command c of
        None \<Rightarrow>
          if invoked_with c \<noteq> []
          then (None, on_command_error c
                        (command_error ''commands.CommandNotFound''
                           (''Command '' @ [CHR 0x22] @ invoked_with c @ [CHR 0x22]
                            @ '' is not found'')))
          else (None, [])
      | Some cmd \<Rightarrow>
          (case can_run s c of
             (Inl e, es) \<Rightarrow> (Some e, es)
           | (Inr ok, es) \<Rightarrow>
               if ok then (None, es @ [Dispatch (qualified_name cmd), DbClose])
               else (None, es @ on_command_error c
                       (command_error ''commands.CheckFailure''
                          (''The global check functions for command '' @ qualified_name cmd
                           @ '' failed.'')))))"

definition process_commands ::
  "settings \<Rightarrow> bot \<Rightarrow> inbound_message \<Rightarrow> py_exception option \<times> effect list" where
  "process_commands s b msg =
     (if author_is_bot msg then (None, [])
      else (case get_context s b msg of
              (Inl e, es) \<Rightarrow> (Some e, es)
            | (Inr c, es) \<Rightarrow> (case invoke s c of (r, es') \<Rightarrow> (r, es @ es'))))"

section \<open>Concrete collaborators and requests\<close>

text \<open>
  A small credential store, guild, membership universe and persistence layer (the store is
  the list of the game records) on which the handlers are run.
\<close>

definition everyone :: role where
  "everyone = \<lparr>role_id = 1, role_name = ''@everyone'', role_position = 0\<rparr>"

definition rider :: role where
  "rider = \<lparr>role_id = 5, role_name = ''Rider'', role_position = 2\<rparr>"

definition ex_member :: "int \<Rightarrow> member" where
  "ex_member i = \<lparr>member_id = i, top_role = everyone\<rparr>"

definition ex_guild :: guild where
  "ex_guild = \<lparr>guild_id = 1, roles = [everyone, rider], members = [(10, ex_member 10)]\<rparr>"

definition ex_authenticate :: "string \<Rightarrow> string \<Rightarrow> string \<Rightarrow> ApiApplication option" where
  "ex_authenticate scp u p =
     (if u = ''app1'' \<and> p = ''secret1'' then Some \<lparr>scopes = scp\<rparr> else None)"

definition ex_credentials :: HTTPBasicCredentials where
  "ex_credentials = \<lparr>username = ''app1'', password = ''secret1''\<rparr>"

definition bad_credentials :: HTTPBasicCredentials where
  "bad_credentials = \<lparr>username = ''app1'', password = ''guess''\<rparr>"

definition fetch_ok :: "int \<Rightarrow> int \<Rightarrow> py_exception + member" where
  "fetch_ok gid uid = Inr (ex_member uid)"

definition discord_NotFound :: py_exception where
  "discord_NotFound =
     \<lparr>exc_classes = [''discord.NotFound'', ''discord.HTTPException'', ''discord.DiscordException'',
                     ''Exception'', ''BaseException''],
      exc_str = ''404 NOT FOUND (error code: 10007): Unknown Member'', exc_traceback = []\<rparr>"

definition discord_server_error :: py_exception where
  "discord_server_error =
     \<lparr>exc_classes = [''discord.HTTPException'', ''discord.DiscordException'',
                     ''Exception'', ''BaseException''],
      exc_str = ''503 SERVICE UNAVAILABLE'', exc_traceback = []\<rparr>"

definition ValueError :: "string \<Rightarrow> py_exception" where
  "ValueError msg =
     \<lparr>exc_classes = [''ValueError'', ''Exception'', ''BaseException''],
      exc_str = msg, exc_traceback = []\<rparr>"

definition db_error :: py_exception where
  "db_error =
     \<lparr>exc_classes = [''peewee.OperationalError'', ''peewee.DatabaseError'', ''peewee.PeeweeException'',
                     ''Exception'', ''BaseException''],
      exc_str = ''connection to server was lost'', exc_traceback = []\<rparr>"

definition create_ok ::
  "string list \<Rightarrow> member list list \<Rightarrow> int \<Rightarrow> string \<Rightarrow> bool \<Rightarrow> bool \<Rightarrow> db_game list
   \<Rightarrow> (py_exception + db_game \<times> string list) \<times> db_game list" where
  "create_ok ws groups gid name ranked mobile d =
     (let g = \<lparr>game_id = int (length d) + 1, game_notes = []\<rparr> in (Inr (g, ws), d @ [g]))"

definition create_checked ::
  "member list list \<Rightarrow> int \<Rightarrow> string \<Rightarrow> bool \<Rightarrow> bool \<Rightarrow> db_game list
   \<Rightarrow> (py_exception + db_game \<times> string list) \<times> db_game list" where
  "create_checked groups gid name ranked mobile d =
     (if length groups < 2 then (Inl (ValueError ''Not enough sides''), d)
      else create_ok [] groups gid name ranked mobile d)"

definition save_ok :: "db_game \<Rightarrow> db_game list \<Rightarrow> (py_exception + unit) \<times> db_game list" where
  "save_ok g d = (Inr (), map (\<lambda>x. if game_id x = game_id g then g else x) d)"

definition save_fails :: "db_game \<Rightarrow> db_game list \<Rightarrow> (py_exception + unit) \<times> db_game list" where
  "save_fails g d = (Inl db_error, d)"

definition ex_env ::
  "string \<Rightarrow> (int \<Rightarrow> int \<Rightarrow> py_exception + member)
   \<Rightarrow> (member list list \<Rightarrow> int \<Rightarrow> string \<Rightarrow> bool \<Rightarrow> bool \<Rightarrow> db_game list
       \<Rightarrow> (py_exception + db_game \<times> string list) \<times> db_game list)
   \<Rightarrow> (db_game \<Rightarrow> db_game list \<Rightarrow> (py_exception + unit) \<times> db_game list)
   \<Rightarrow> (db_game list) api_env" where
  "ex_env scp fetch create sv =
     \<lparr>authenticate = ex_authenticate scp,
      client_guilds = [(1, ex_guild)],
      fetch_member = fetch,
      create_game = create,
      save = sv,
      user_get_or_none = (\<lambda>i d. None),
      user_as_json = (\<lambda>i games d. JObject [(''discord_id'', JInt i)]),
      game_get_or_none = (\<lambda>i d. if i \<in> set (map game_id d) then Some i else None),
      game_as_json = (\<lambda>i d. JObject [(''id'', JInt i)])\<rparr>"

definition w0 :: "(db_game list) world" where
  "w0 = \<lparr>db = [], effects = []\<rparr>"

definition ex_game :: "string \<Rightarrow> int list list \<Rightarrow> NewGame" where
  "ex_game note sides =
     \<lparr>game_name = ''Friendly'', new_guild_id = 1, is_ranked = False, is_mobile = True,
      new_notes = note, sides_discord_ids = sides\<rparr>"

definition ex_body :: request_body where
  "ex_body =
     \<lparr>body_game_name = Some ''Friendly'', body_guild_id = Some 1, body_is_ranked = None,
      body_is_mobile = None, body_notes = None,
      body_sides_discord_ids = Some [[10, 11], [12, 13]]\<rparr>"

definition ex_settings :: settings where
  "ex_settings =
     \<lparr>config = [(1, [(''command_prefix'', ''$'')])],
      guild_setting = (\<lambda>gid key. ''$''),
      get_setting = (\<lambda>key. ''!''),
      server_ids = [(''main'', 1)]\<rparr>"

definition ex_command :: command where
  "ex_command = \<lparr>qualified_name = ''newgame'', has_on_error = False\<rparr>"

definition ex_bot :: bot where
  "ex_bot = \<lparr>bot_user_id = 99, all_commands = [(''newgame'', ex_command)]\<rparr>"

definition dm_message :: inbound_message where
  "dm_message = \<lparr>message_guild = None, message_author = ex_member 10, author_is_bot = False,
                 message_content = ''$newgame''\<rparr>"

definition guild_message :: inbound_message where
  "guild_message = \<lparr>message_guild = Some ex_guild,
                    message_author = \<lparr>member_id = 10, top_role = rider\<rparr>,
                    author_is_bot = False, message_content = ''$newgame''\<rparr>"

definition dm_ctx :: ctx where
  "dm_ctx = \<lparr>ctx_guild = None, ctx_author = ex_member 10, ctx_command = Some ex_command,
             invoked_with = ''newgame''\<rparr>"

definition guild_ctx :: ctx where
  "guild_ctx = \<lparr>ctx_guild = Some ex_guild, ctx_author = ex_member 10,
                ctx_command = Some ex_command, invoked_with = ''newgame''\<rparr>"

definition internal_error :: py_exception where
  "internal_error =
     \<lparr>exc_classes = [''commands.CommandInvokeError'', ''commands.CommandError'',
                     ''discord.DiscordException'', ''Exception'', ''BaseException''],
      exc_str = ''Command raised an exception: OperationalError: could not connect to db at 10.0.0.5'',
      exc_traceback = ''Traceback (most recent call last): ...''\<rparr>"

section \<open>Properties of the HTTP API\<close>

lemma emit_simps [simp]:
  "db (emit es w) = db w"
  "effects (emit es w) = effects w @ es"
  by (simp_all add: emit_def)

subsection \<open>Scopes\<close>

text \<open>
  \<^verbatim>\<open>str.split()\<close> on a well delimited string returns its tokens, in order.
\<close>

lemma split_from_skip_space:
  "list_all isspace ws \<Longrightarrow> split_from [] (ws @ s) = split_from [] s"
  by (induction ws) simp_all

lemma split_from_read_token:
  "\<not> list_ex isspace t \<Longrightarrow> split_from tok (t @ s) = split_from (tok @ t) s"
  by (induction t arbitrary: tok) simp_all

lemma split_from_end_token:
  "tok \<noteq> [] \<Longrightarrow> list_all isspace ws \<Longrightarrow> ws \<noteq> [] \<Longrightarrow>
     split_from tok (ws @ s) = tok # split_from [] s"
  by (cases ws) (simp_all add: split_from_skip_space)

lemma split_from_last_token:
  "tok \<noteq> [] \<Longrightarrow> list_all isspace ws \<Longrightarrow> split_from tok ws = [tok]"
  using split_from_end_token [of tok ws "[]"] by (cases ws) simp_all

lemma str_split_delimited:
  "well_delimited lead tws \<Longrightarrow> str_split (delimited lead tws) = map fst tws"
proof (induction tws arbitrary: lead)
  case Nil
  then show ?case
    using split_from_skip_space [of lead "[]"] by (simp add: str_split_def well_delimited_def)
next
  case (Cons tw rest)
  obtain t ws where tw: "tw = (t, ws)" by (cases tw)
  from Cons.prems tw have lead: "list_all isspace lead" and t: "is_token t"
    and ws: "list_all isspace ws"
    by (simp_all add: well_delimited_def)
  have step: "str_split (delimited lead (tw # rest)) = split_from t (delimited ws rest)"
    using lead t tw split_from_read_token [of t "[]" "delimited ws rest"]
    by (simp add: str_split_def split_from_skip_space is_token_def)
  show ?case
  proof (cases rest)
    case Nil
    with step t ws tw show ?thesis
      by (simp add: split_from_last_token is_token_def)
  next
    case (Cons tw2 rest2)
    obtain t2 ws2 where tw2: "tw2 = (t2, ws2)" by (cases tw2)
    from Cons.prems tw Cons have ne: "ws \<noteq> []" and wd: "well_delimited [] rest"
      by (auto simp add: well_delimited_def)
    have "split_from t (delimited ws rest) = t # split_from [] (delimited [] rest)"
      using t ws ne Cons tw2 split_from_end_token [of t ws "t2 @ delimited ws2 rest2"]
      by (simp add: is_token_def)
    with step Cons.IH [OF wd] tw show ?thesis
      by (simp add: str_split_def)
  qed
qed

text \<open>
  The three handlers read the token list only through membership tests.
\<close>

lemma handlers_read_membership_only:
  assumes eq: "set scps = set scps'"
  shows "get_user env i scps w = get_user env i scps' w"
    and "get_game env j scps w = get_game env j scps' w"
    and "new_game env game scps w = new_game env game scps' w"
  unfolding get_user_def get_game_def new_game_def eq by (rule refl)+

text \<open>
  C9: for a credential that authenticates, the scope set, that is the set of the tokens that
  \<^verbatim>\<open>get_scopes\<close> returns, is the set of the whitespace-delimited tokens of the stored
  string. Two stored strings whose tokens differ only in order or repetition (and in the
  whitespace around them) give the same scope set, and the token lists returned for them give
  the same result and the same effects in every handler.
\<close>

theorem scope_set_ignores_order_and_duplicates:
  assumes "authenticate env (username c) (password c) = Some app"
    and "authenticate env' (username c') (password c') = Some app'"
    and "scopes app = delimited lead tws" and "well_delimited lead tws"
    and "scopes app' = delimited lead' tws'" and "well_delimited lead' tws'"
    and "set (map fst tws) = set (map fst tws')"
  shows "map_sum id set (fst (get_scopes env c w)) = Inr (set (map fst tws)) \<and>
         map_sum id set (fst (get_scopes env' c' w')) = map_sum id set (fst (get_scopes env c w)) \<and>
         (\<forall>l l'. fst (get_scopes env c w) = Inr l \<and> fst (get_scopes env' c' w') = Inr l' \<longrightarrow>
            get_user env i l v = get_user env i l' v \<and>
            get_game env j l v = get_game env j l' v \<and>
            new_game env game l v = new_game env game l' v)"
proof -
  have a: "fst (get_scopes env c w) = Inr (map fst tws)"
    using assms(1,3,4) by (simp add: get_scopes_def str_split_delimited)
  have b: "fst (get_scopes env' c' w') = Inr (map fst tws')"
    using assms(2,5,6) by (simp add: get_scopes_def str_split_delimited)
  note h = handlers_read_membership_only [OF assms(7)]
  show ?thesis
    using assms(7) by (simp add: a b h)
qed

text \<open>
  The theorem at the stored strings \<^verbatim>\<open>games:read games:new\<close> and, with another order, a
  repetition, a tab and surrounding blanks, \<^verbatim>\<open>games:new games:read games:new\<close>.
\<close>

theorem scope_set_ignores_order_and_duplicates_witness:
  "authenticate (ex_env ''games:read games:new'' fetch_ok create_checked save_ok)
       (username ex_credentials) (password ex_credentials)
     = Some \<lparr>scopes = ''games:read games:new''\<rparr> \<and>
   authenticate (ex_env (''  games:new'' @ [CHR 0x09] @ ''games:read  games:new '') fetch_ok create_checked save_ok)
       (username ex_credentials) (password ex_credentials)
     = Some \<lparr>scopes = ''  games:new'' @ [CHR 0x09] @ ''games:read  games:new ''\<rparr> \<and>
   ''games:read games:new'' = delimited [] [(''games:read'', '' ''), (''games:new'', [])] \<and>
   well_delimited [] [(''games:read'', '' ''), (''games:new'', [])] \<and>
   ''  games:new'' @ [CHR 0x09] @ ''games:read  games:new ''
     = delimited ''  '' [(''games:new'', [CHR 0x09]), (''games:read'', ''  ''), (''games:new'', '' '')] \<and>
   well_delimited ''  '' [(''games:new'', [CHR 0x09]), (''games:read'', ''  ''), (''games:new'', '' '')] \<and>
   fst (get_scopes (ex_env ''games:read games:new'' fetch_ok create_checked save_ok) ex_credentials w0)
     = Inr [''games:read'', ''games:new''] \<and>
   fst (get_scopes (ex_env (''  games:new'' @ [CHR 0x09] @ ''games:read  games:new '')
          fetch_ok create_checked save_ok) ex_credentials w0)
     = Inr [''games:new'', ''games:read'', ''games:new''] \<and>
   map_sum id set (fst (get_scopes (ex_env (''  games:new'' @ [CHR 0x09] @ ''games:read  games:new '')
          fetch_ok create_checked save_ok) ex_credentials w0))
     = map_sum id set (fst (get_scopes (ex_env ''games:read games:new'' fetch_ok create_checked save_ok)
          ex_credentials w0))"
  using scope_set_ignores_order_and_duplicates
     [where env = "ex_env ''games:read games:new'' fetch_ok create_checked save_ok"
        and env' = "ex_env (''  games:new'' @ [CHR 0x09] @ ''games:read  games:new '')
                      fetch_ok create_checked save_ok"
        and c = ex_credentials and c' = ex_credentials
        and app = "\<lparr>scopes = ''games:read games:new''\<rparr>"
        and app' = "\<lparr>scopes = ''  games:new'' @ [CHR 0x09] @ ''games:read  games:new ''\<rparr>"
        and lead = "[]" and tws = "[(''games:read'', '' ''), (''games:new'', [])]"
        and lead' = "''  ''"
        and tws' = "[(''games:new'', [CHR 0x09]), (''games:read'', ''  ''), (''games:new'', '' '')]"
        and w = w0 and w' = w0]
  by (simp add: ex_env_def ex_authenticate_def ex_credentials_def get_scopes_def str_split_def
        isspace_def well_delimited_def is_token_def insert_commute)

lemma emit_Nil [simp]: "emit [] w = w"
  by (simp add: emit_def)

lemma emit_emit [simp]: "emit es (emit es' w) = emit (es' @ es) w"
  by (simp add: emit_def)

text \<open>
  C2: a credential pair that the credential store does not know is answered 401 with the
  header \<^verbatim>\<open>WWW-Authenticate: Basic\<close> by each of the three operations, and the store is
  left as it was. A credential that authenticates but whose token list lacks the scope of
  the operation (\<^verbatim>\<open>users:read\<close>, \<^verbatim>\<open>games:read\<close>, \<^verbatim>\<open>games:new\<close>) is answered 403;
  for \<^verbatim>\<open>POST /game/new\<close> (with a body that validates) no game record is created: the
  store is unchanged and no create or save call is made.
\<close>

theorem unauthenticated_401_unauthorised_403:
  "(authenticate env (username c) (password c) = None \<longrightarrow>
      fst (route_get_user env c i w)
        = Inl (HTTPException 401 ''Incorrect app ID or token.'' [(''WWW-Authenticate'', ''Basic'')]) \<and>
      fst (route_get_game env c j w)
        = Inl (HTTPException 401 ''Incorrect app ID or token.'' [(''WWW-Authenticate'', ''Basic'')]) \<and>
      fst (route_new_game env c body w)
        = Inl (HTTPException 401 ''Incorrect app ID or token.'' [(''WWW-Authenticate'', ''Basic'')]) \<and>
      db (snd (route_new_game env c body w)) = db w \<and>
      filter is_mutation (effects (snd (route_new_game env c body w)))
        = filter is_mutation (effects w)) \<and>
   (authenticate env (username c) (password c) = Some app \<longrightarrow>
      (''users:read'' \<notin> set (str_split (scopes app)) \<longrightarrow>
         fst (route_get_user env c i w)
           = Inl (HTTPException 403 ''Not authorised for scope users:read.'' [])) \<and>
      (''games:read'' \<notin> set (str_split (scopes app)) \<longrightarrow>
         fst (route_get_game env c j w)
           = Inl (HTTPException 403 ''Not authorised for scope games:read.'' [])) \<and>
      (''games:new'' \<notin> set (str_split (scopes app)) \<and> parse_NewGame body = Some game \<longrightarrow>
         fst (route_new_game env c body w)
           = Inl (HTTPException 403 ''Not authorised for scope games:new.'' []) \<and>
         db (snd (route_new_game env c body w)) = db w \<and>
         filter is_mutation (effects (snd (route_new_game env c body w)))
           = filter is_mutation (effects w)))"
  by (simp add: route_get_user_def route_get_game_def route_new_game_def get_scopes_def
        get_user_def get_game_def new_game_def)

text \<open>
  The theorem at a wrong secret, and at a valid credential whose scopes are
  \<^verbatim>\<open>games:read\<close> only.
\<close>

theorem unauthenticated_401_unauthorised_403_witness:
  "authenticate (ex_env ''games:read'' fetch_ok create_checked save_ok)
       (username bad_credentials) (password bad_credentials) = None \<and>
   status_of (projl (fst (route_new_game (ex_env ''games:read'' fetch_ok create_checked save_ok)
       bad_credentials ex_body w0))) = 401 \<and>
   headers_of (projl (fst (route_new_game (ex_env ''games:read'' fetch_ok create_checked save_ok)
       bad_credentials ex_body w0))) = [(''WWW-Authenticate'', ''Basic'')] \<and>
   authenticate (ex_env ''games:read'' fetch_ok create_checked save_ok)
       (username ex_credentials) (password ex_credentials) = Some \<lparr>scopes = ''games:read''\<rparr> \<and>
   ''games:new'' \<notin> set (str_split ''games:read'') \<and>
   parse_NewGame ex_body = Some (ex_game [] [[10, 11], [12, 13]]) \<and>
   status_of (projl (fst (route_new_game (ex_env ''games:read'' fetch_ok create_checked save_ok)
       ex_credentials ex_body w0))) = 403 \<and>
   db (snd (route_new_game (ex_env ''games:read'' fetch_ok create_checked save_ok)
       ex_credentials ex_body w0)) = [] \<and>
   filter is_mutation (effects (snd (route_new_game
       (ex_env ''games:read'' fetch_ok create_checked save_ok) ex_credentials ex_body w0))) = []"
  using unauthenticated_401_unauthorised_403
      [of "ex_env ''games:read'' fetch_ok create_checked save_ok" bad_credentials 0 w0 0 ex_body
          "\<lparr>scopes = ''games:read''\<rparr>" "ex_game [] [[10, 11], [12, 13]]"]
    unauthenticated_401_unauthorised_403
      [of "ex_env ''games:read'' fetch_ok create_checked save_ok" ex_credentials 0 w0 0 ex_body
          "\<lparr>scopes = ''games:read''\<rparr>" "ex_game [] [[10, 11], [12, 13]]"]
  by (simp add: ex_env_def ex_authenticate_def bad_credentials_def ex_credentials_def
        str_split_def isspace_def parse_NewGame_def ex_body_def ex_game_def w0_def)

subsection \<open>Identity resolution\<close>

text \<open>
  C3, as stated: a remote fetch that fails for another reason than a missing member gives an
  outcome distinct from the one of a missing member. It fails: \<^verbatim>\<open>get_discord_member\<close>
  catches the library's \<^verbatim>\<open>HTTPException\<close>, the base class of every HTTP failure, and
  answers 404 "member not found" for all of them. A fetch that fails with 503 is
  answered exactly as a fetch of a member that does not exist.
\<close>

theorem fetch_failure_conflated_counterexample:
  "discord_server_error \<noteq> discord_NotFound \<and>
   \<not> isinstance discord_server_error ''discord.NotFound'' \<and>
   get_discord_member (ex_env ''games:new'' (\<lambda>g u. Inl discord_server_error) create_checked save_ok) 1 7 w0
     = get_discord_member (ex_env ''games:new'' (\<lambda>g u. Inl discord_NotFound) create_checked save_ok) 1 7 w0 \<and>
   fst (get_discord_member
          (ex_env ''games:new'' (\<lambda>g u. Inl discord_server_error) create_checked save_ok) 1 7 w0)
     = Inl (HTTPException 404 ''Discord member not found by ID 7.'' [])"
  by (simp add: get_discord_member_def ex_env_def ex_guild_def isinstance_def
        discord_server_error_def discord_NotFound_def str_int_def str_nat.simps digit_char_def)

text \<open>
  C3, amended: when the guild is known and the member is not cached, every failure of the
  remote fetch that is an instance of the library's \<^verbatim>\<open>HTTPException\<close> (the member not
  existing, or any other HTTP failure) gives the same 404 "Discord member not found by
  ID"; an exception outside that class is not caught and leaves the handler unchanged.
\<close>

theorem fetch_failure_is_404_or_uncaught:
  assumes "map_of (client_guilds env) gid = Some g"
    and "map_of (members g) user_id = None"
    and "fetch_member env gid user_id = Inl e"
  shows "fst (get_discord_member env gid user_id w) =
           (if isinstance e ''discord.HTTPException''
            then Inl (HTTPException 404
                        (''Discord member not found by ID '' @ str_int user_id @ ''.'') [])
            else Inl (Uncaught e))"
  using assms by (simp add: get_discord_member_def)

text \<open>
  The theorem at a fetch that fails with 503.
\<close>

theorem fetch_failure_is_404_or_uncaught_witness:
  "map_of (client_guilds (ex_env ''games:new'' (\<lambda>g u. Inl discord_server_error) create_checked save_ok)) 1
     = Some ex_guild \<and>
   map_of (members ex_guild) 7 = None \<and>
   fetch_member (ex_env ''games:new'' (\<lambda>g u. Inl discord_server_error) create_checked save_ok) 1 7
     = Inl discord_server_error \<and>
   isinstance discord_server_error ''discord.HTTPException'' \<and>
   fst (get_discord_member
          (ex_env ''games:new'' (\<lambda>g u. Inl discord_server_error) create_checked save_ok) 1 7 w0)
     = Inl (HTTPException 404 (''Discord member not found by ID '' @ str_int 7 @ ''.'') [])"
  using fetch_failure_is_404_or_uncaught
      [of "ex_env ''games:new'' (\<lambda>g u. Inl discord_server_error) create_checked save_ok" 1
          ex_guild 7 discord_server_error w0]
  by (simp add: ex_env_def ex_guild_def isinstance_def discord_server_error_def)

subsection \<open>The resolution loops\<close>

text \<open>
  What a resolution returns does not depend on the world it starts from, and it only
  appends effects.
\<close>

lemma get_discord_member_any_world:
  "\<exists>r es. \<forall>w. get_discord_member env gid u w = (r, emit es w)"
proof (cases "map_of (client_guilds env) gid")
  case None
  then have "\<forall>w. get_discord_member env gid u w =
      (Inl (HTTPException 404 (''Discord guild not found by ID '' @ str_int gid @ ''.'') []), emit [] w)"
    by (simp add: get_discord_member_def)
  then show ?thesis by blast
next
  case (Some g)
  show ?thesis
  proof (cases "map_of (members g) u")
    case (Some m)
    with \<open>map_of (client_guilds env) gid = Some g\<close>
    have "\<forall>w. get_discord_member env gid u w = (Inr m, emit [] w)"
      by (simp add: get_discord_member_def)
    then show ?thesis by blast
  next
    case None
    with \<open>map_of (client_guilds env) gid = Some g\<close>
    have "\<forall>w. get_discord_member env gid u w =
       (fst (get_discord_member env gid u w), emit [FetchMember gid u] w)"
      and "\<forall>w w'. fst (get_discord_member env gid u w) = fst (get_discord_member env gid u w')"
      by (auto simp add: get_discord_member_def split: sum.splits)
    then show ?thesis by metis
  qed
qed

lemma resolve_side_any_world:
  "\<exists>r es. \<forall>w. resolve_side env gid side w = (r, emit es w)"
proof (induction side)
  case Nil
  have "\<forall>w. resolve_side env gid [] w = (Inr [], emit [] w)" by simp
  then show ?case by blast
next
  case (Cons u side)
  obtain r1 es1 where h1: "\<And>w. get_discord_member env gid u w = (r1, emit es1 w)"
    using get_discord_member_any_world by metis
  obtain r2 es2 where h2: "\<And>w. resolve_side env gid side w = (r2, emit es2 w)"
    using Cons.IH by metis
  show ?case
  proof (cases r1)
    case (Inl e)
    then have "\<forall>w. resolve_side env gid (u # side) w = (Inl e, emit es1 w)"
      by (simp add: h1)
    then show ?thesis by blast
  next
    case (Inr m)
    show ?thesis
    proof (cases r2)
      case (Inl e)
      with Inr have "\<forall>w. resolve_side env gid (u # side) w = (Inl e, emit (es1 @ es2) w)"
        by (simp add: h1 h2)
      then show ?thesis by blast
    next
      case r2: (Inr ms)
      with Inr have "\<forall>w. resolve_side env gid (u # side) w = (Inr (m # ms), emit (es1 @ es2) w)"
        by (simp add: h1 h2)
      then show ?thesis by blast
    qed
  qed
qed

lemma resolve_sides_any_world:
  "\<exists>r es. \<forall>w. resolve_sides env gid sides w = (r, emit es w)"
proof (induction sides)
  case Nil
  have "\<forall>w. resolve_sides env gid [] w = (Inr [], emit [] w)" by simp
  then show ?case by blast
next
  case (Cons side sides)
  obtain r1 es1 where h1: "\<And>w. resolve_side env gid side w = (r1, emit es1 w)"
    using resolve_side_any_world by metis
  obtain r2 es2 where h2: "\<And>w. resolve_sides env gid sides w = (r2, emit es2 w)"
    using Cons.IH by metis
  show ?case
  proof (cases r1)
    case (Inl e)
    then have "\<forall>w. resolve_sides env gid (side # sides) w = (Inl e, emit es1 w)"
      by (simp add: h1)
    then show ?thesis by blast
  next
    case (Inr m)
    show ?thesis
    proof (cases r2)
      case (Inl e)
      with Inr have "\<forall>w. resolve_sides env gid (side # sides) w = (Inl e, emit (es1 @ es2) w)"
        by (simp add: h1 h2)
      then show ?thesis by blast
    next
      case r2: (Inr ms)
      with Inr have "\<forall>w. resolve_sides env gid (side # sides) w = (Inr (m # ms), emit (es1 @ es2) w)"
        by (simp add: h1 h2)
      then show ?thesis by blast
    qed
  qed
qed

lemma resolve_sides_fst: "fst (resolve_sides env gid sides w) = fst (resolve_sides env gid sides w')"
  using resolve_sides_any_world [of env gid sides] by (metis fst_conv)

text \<open>
  A resolution that succeeds has fetched exactly the identifiers the cache misses, in
  side-major order.
\<close>

lemma get_discord_member_ok:
  "get_discord_member env gid u w = (Inr m, w') \<Longrightarrow>
     w' = emit (map (FetchMember gid) (cache_misses env gid [u])) w"
  by (auto simp add: get_discord_member_def cache_misses_def split: option.splits sum.splits if_splits)

lemma cache_misses_append:
  "cache_misses env gid (xs @ ys) = cache_misses env gid xs @ cache_misses env gid ys"
  by (simp add: cache_misses_def split: option.splits)

lemma resolve_side_ok:
  "resolve_side env gid side w = (Inr users, w') \<Longrightarrow>
     w' = emit (map (FetchMember gid) (cache_misses env gid side)) w \<and> length users = length side"
proof (induction side arbitrary: w users w')
  case Nil
  then show ?case by (simp add: cache_misses_def split: option.splits)
next
  case (Cons u side)
  from Cons.prems obtain m w1 ms where
    a: "get_discord_member env gid u w = (Inr m, w1)" and
    b: "resolve_side env gid side w1 = (Inr ms, w')" and c: "users = m # ms"
    by (auto split: prod.splits sum.splits)
  from Cons.IH [OF b] get_discord_member_ok [OF a] c
  show ?case
    using cache_misses_append [of env gid "[u]" side] by simp
qed

lemma resolve_sides_ok:
  "resolve_sides env gid sides w = (Inr users, w') \<Longrightarrow>
     w' = emit (map (FetchMember gid) (cache_misses env gid (concat sides))) w \<and>
     map length users = map length sides"
proof (induction sides arbitrary: w users w')
  case Nil
  then show ?case by (simp add: cache_misses_def split: option.splits)
next
  case (Cons side sides)
  from Cons.prems obtain m w1 ms where
    a: "resolve_side env gid side w = (Inr m, w1)" and
    b: "resolve_sides env gid sides w1 = (Inr ms, w')" and c: "users = m # ms"
    by (auto split: prod.splits sum.splits)
  from Cons.IH [OF b] resolve_side_ok [OF a] c
  show ?case
    by (simp add: cache_misses_append)
qed

lemma filter_fetch_map [simp]:
  "filter is_fetch (map (FetchMember gid) xs) = map (FetchMember gid) xs"
  "filter is_mutation (map (FetchMember gid) xs) = []"
  by (induction xs) simp_all

lemma resolve_sides_from:
  assumes "fst (resolve_sides env gid sides w) = Inr users"
  shows "resolve_sides env gid sides w1 =
           (Inr users, emit (map (FetchMember gid) (cache_misses env gid (concat sides))) w1)"
proof -
  from assms have "fst (resolve_sides env gid sides w1) = Inr users"
    using resolve_sides_fst [of env gid sides w1 w] by simp
  then obtain w2 where r: "resolve_sides env gid sides w1 = (Inr users, w2)"
    by (cases "resolve_sides env gid sides w1") simp
  with resolve_sides_ok [OF r] show ?thesis by simp
qed

lemma get_discord_member_create_irrelevant:
  "get_discord_member (env\<lparr>create_game := f\<rparr>) gid u w = get_discord_member env gid u w"
  by (simp add: get_discord_member_def split: option.splits)

lemma resolve_side_create_irrelevant:
  "resolve_side (env\<lparr>create_game := f\<rparr>) gid side w = resolve_side env gid side w"
  by (induction side arbitrary: w)
     (simp_all add: get_discord_member_create_irrelevant split: prod.splits sum.splits)

lemma resolve_sides_create_irrelevant:
  "resolve_sides (env\<lparr>create_game := f\<rparr>) gid sides w = resolve_sides env gid sides w"
  by (induction sides arbitrary: w)
     (simp_all add: resolve_side_create_irrelevant split: prod.splits sum.splits)

lemma attach_notes_create_irrelevant:
  "attach_notes (env\<lparr>create_game := f\<rparr>) game g w = attach_notes env game g w"
  by (simp add: attach_notes_def)

lemma get_discord_member_only_fetches:
  "filter (\<lambda>e. \<not> is_fetch e) (effects (snd (get_discord_member env gid u w)))
     = filter (\<lambda>e. \<not> is_fetch e) (effects w)"
  by (simp add: get_discord_member_def split: option.splits sum.splits)

lemma resolve_side_only_fetches:
  "filter (\<lambda>e. \<not> is_fetch e) (effects (snd (resolve_side env gid side w)))
     = filter (\<lambda>e. \<not> is_fetch e) (effects w)"
proof (induction side arbitrary: w)
  case Nil
  then show ?case by simp
next
  case (Cons u side)
  show ?case
    using get_discord_member_only_fetches [of env gid u w]
      Cons.IH [of "snd (get_discord_member env gid u w)"]
    by (auto split: prod.splits sum.splits)
qed

lemma resolve_sides_only_fetches:
  "filter (\<lambda>e. \<not> is_fetch e) (effects (snd (resolve_sides env gid sides w)))
     = filter (\<lambda>e. \<not> is_fetch e) (effects w)"
proof (induction sides arbitrary: w)
  case Nil
  then show ?case by simp
next
  case (Cons side sides)
  show ?case
    using resolve_side_only_fetches [of env gid side w]
      Cons.IH [of "snd (resolve_side env gid side w)"]
    by (auto split: prod.splits sum.splits)
qed

lemma filter_through:
  assumes "\<And>e. P e \<Longrightarrow> Q e" and "filter Q xs = filter Q ys"
  shows "filter P xs = filter P ys"
proof -
  have "filter P zs = filter P (filter Q zs)" for zs
    using assms(1) by (induction zs) auto
  then show ?thesis using assms(2) by metis
qed

lemma resolve_sides_no_save:
  "filter is_save (effects (snd (resolve_sides env gid sides w))) = filter is_save (effects w)"
proof (rule filter_through [OF _ resolve_sides_only_fetches])
  fix e show "is_save e \<Longrightarrow> \<not> is_fetch e" by (cases e) simp_all
qed

lemma new_game_without_note_no_save:
  assumes "new_notes game = []"
  shows "filter is_save (effects (snd (new_game env game scps w))) = filter is_save (effects w)"
proof -
  let ?w1 = "emit [Log INFO (''games-write attempted with game info: '' @ game_name game
                              @ '' / '' @ str_int (new_guild_id game)
                              @ '' / '' @ repr_int_list_list (sides_discord_ids game))] w"
  have "filter is_save (effects (snd (resolve_sides env (new_guild_id game) (sides_discord_ids game) ?w1)))
          = filter is_save (effects w)"
    by (simp add: resolve_sides_no_save)
  then show ?thesis
    using assms
    by (auto simp add: new_game_def attach_notes_def Let_def split: prod.splits sum.splits)
qed

subsection \<open>Game creation\<close>

text \<open>
  C1, as stated: a request that violates a shape precondition (fewer than two non-empty
  sides, an identity in two sides, an empty name) is refused before any identity resolution
  or persistence call. It fails: \<^verbatim>\<open>new_game\<close> checks nothing but the scope before it
  resolves the identities. A one-sided request causes a remote fetch and a call of the
  create operation; a request that names the same unknown identity in two sides is answered
  404 after a remote fetch.
\<close>

theorem new_game_no_precondition_counterexample:
  "filter is_fetch (effects (snd (new_game (ex_env ''games:new'' fetch_ok create_checked save_ok)
        (ex_game [] [[7]]) [''games:new''] w0))) = [FetchMember 1 7] \<and>
   filter is_mutation (effects (snd (new_game (ex_env ''games:new'' fetch_ok create_checked save_ok)
        (ex_game [] [[7]]) [''games:new''] w0)))
     = [CreateGame [[ex_member 7]] 1 ''Friendly'' False True] \<and>
   fst (new_game (ex_env ''games:new'' (\<lambda>g u. Inl discord_NotFound) create_checked save_ok)
        (ex_game [] [[7], [7]]) [''games:new''] w0)
     = Inl (HTTPException 404 ''Discord member not found by ID 7.'' []) \<and>
   filter is_fetch (effects (snd (new_game
        (ex_env ''games:new'' (\<lambda>g u. Inl discord_NotFound) create_checked save_ok)
        (ex_game [] [[7], [7]]) [''games:new''] w0))) = [FetchMember 1 7]"
  by (simp add: new_game_def get_discord_member_def ex_env_def ex_game_def w0_def ex_guild_def
        fetch_ok_def create_checked_def ValueError_def isinstance_def discord_NotFound_def
        str_int_def str_nat.simps digit_char_def emit_def)

lemma resolve_sides_no_mutation:
  "filter is_mutation (effects (snd (resolve_sides env gid sides w))) = filter is_mutation (effects w)"
proof (rule filter_through [OF _ resolve_sides_only_fetches])
  fix e show "is_mutation e \<Longrightarrow> \<not> is_fetch e" by (cases e) simp_all
qed

lemma filter_create_fetches [simp]:
  "filter is_create (map (FetchMember gid) xs) = []"
  by (induction xs) simp_all

lemma new_game_resolution_fails:
  assumes "''games:new'' \<in> set scps"
    and "fst (resolve_sides env (new_guild_id game) (sides_discord_ids game) w) = Inl e"
  shows "fst (new_game env game scps w) = Inl e \<and>
         db (snd (new_game env game scps w)) = db w \<and>
         filter is_mutation (effects (snd (new_game env game scps w)))
           = filter is_mutation (effects w)"
proof -
  let ?w1 = "emit [Log INFO (''games-write attempted with game info: '' @ game_name game
                              @ '' / '' @ str_int (new_guild_id game)
                              @ '' / '' @ repr_int_list_list (sides_discord_ids game))] w"
  let ?r = "resolve_sides env (new_guild_id game) (sides_discord_ids game) ?w1"
  have f: "fst ?r = Inl e"
    using assms(2) resolve_sides_fst [of env "new_guild_id game" "sides_discord_ids game" ?w1 w]
    by simp
  have m: "filter is_mutation (effects (snd ?r)) = filter is_mutation (effects w)"
    by (simp add: resolve_sides_no_mutation)
  obtain es where "\<forall>v. snd (resolve_sides env (new_guild_id game) (sides_discord_ids game) v) = emit es v"
    using resolve_sides_any_world [of env "new_guild_id game" "sides_discord_ids game"]
    by (metis snd_conv)
  then have d: "db (snd ?r) = db w" by simp
  obtain w2 where r: "?r = (Inl e, w2)" using f by (cases ?r) simp
  with m d assms(1) show ?thesis
    by (simp add: new_game_def Let_def)
qed

text \<open>
  C1, amended: \<^verbatim>\<open>new_game\<close> makes no shape check of its own. With the scope
  \<^verbatim>\<open>games:new\<close>, whatever the shape of the request, it first resolves the identities of
  the sides in order. When a resolution fails, that failure is the answer and the store is
  not touched. When all succeed, the effects are, in this order: the log record of the
  attempt, one remote fetch for each identifier the cache misses (side-major), then the one
  call of the create operation with the resolved sides, and after it no fetch and no other
  create call. When the create operation raises \<^verbatim>\<open>ValueError\<close> the answer is 400 with
  the error's text as reason, the store is as the create operation left it, and the only
  later effect is the error log record.
\<close>

theorem new_game_validates_after_resolution:
  assumes "''games:new'' \<in> set scps"
  shows "(\<forall>e. fst (resolve_sides env (new_guild_id game) (sides_discord_ids game) w) = Inl e \<longrightarrow>
            fst (new_game env game scps w) = Inl e \<and>
            db (snd (new_game env game scps w)) = db w \<and>
            filter is_mutation (effects (snd (new_game env game scps w)))
              = filter is_mutation (effects w)) \<and>
         (\<forall>users. fst (resolve_sides env (new_guild_id game) (sides_discord_ids game) w) = Inr users \<longrightarrow>
            (\<exists>rest. effects (snd (new_game env game scps w))
                      = effects w
                        @ [Log INFO (''games-write attempted with game info: '' @ game_name game
                                     @ '' / '' @ str_int (new_guild_id game)
                                     @ '' / '' @ repr_int_list_list (sides_discord_ids game))]
                        @ map (FetchMember (new_guild_id game))
                            (cache_misses env (new_guild_id game) (concat (sides_discord_ids game)))
                        @ [CreateGame users (new_guild_id game) (game_name game) (is_ranked game)
                             (is_mobile game)]
                        @ rest \<and>
                    filter is_fetch rest = [] \<and> filter is_create rest = [] \<and>
                    (\<forall>e d. create_game env users (new_guild_id game) (game_name game)
                             (is_ranked game) (is_mobile game) (db w) = (Inl e, d) \<and>
                           isinstance e ''ValueError'' \<longrightarrow>
                       fst (new_game env game scps w) = Inl (HTTPException 400 (exc_str e) []) \<and>
                       db (snd (new_game env game scps w)) = d \<and>
                       rest = [Log ERROR (''FAILED games:write call (creation error): ''
                                          @ exc_str e)])))"
proof (intro conjI allI impI)
  fix e
  assume "fst (resolve_sides env (new_guild_id game) (sides_discord_ids game) w) = Inl e"
  from new_game_resolution_fails [OF assms this]
  show "fst (new_game env game scps w) = Inl e"
    and "db (snd (new_game env game scps w)) = db w"
    and "filter is_mutation (effects (snd (new_game env game scps w)))
           = filter is_mutation (effects w)"
    by simp_all
next
  fix users
  assume ok: "fst (resolve_sides env (new_guild_id game) (sides_discord_ids game) w) = Inr users"
  note r = resolve_sides_from [OF ok]
  show "\<exists>rest. effects (snd (new_game env game scps w))
                      = effects w
                        @ [Log INFO (''games-write attempted with game info: '' @ game_name game
                                     @ '' / '' @ str_int (new_guild_id game)
                                     @ '' / '' @ repr_int_list_list (sides_discord_ids game))]
                        @ map (FetchMember (new_guild_id game))
                            (cache_misses env (new_guild_id game) (concat (sides_discord_ids game)))
                        @ [CreateGame users (new_guild_id game) (game_name game) (is_ranked game)
                             (is_mobile game)]
                        @ rest \<and>
                    filter is_fetch rest = [] \<and> filter is_create rest = [] \<and>
                    (\<forall>e d. create_game env users (new_guild_id game) (game_name game)
                             (is_ranked game) (is_mobile game) (db w) = (Inl e, d) \<and>
                           isinstance e ''ValueError'' \<longrightarrow>
                       fst (new_game env game scps w) = Inl (HTTPException 400 (exc_str e) []) \<and>
                       db (snd (new_game env game scps w)) = d \<and>
                       rest = [Log ERROR (''FAILED games:write call (creation error): ''
                                          @ exc_str e)])"
    using assms
    by (auto simp add: new_game_def Let_def r attach_notes_def split: prod.splits sum.splits)
qed

text \<open>
  The theorem at a one-sided request refused by a create operation that wants two sides,
  and at the same request when the remote fetch fails.
\<close>

theorem new_game_validates_after_resolution_witness:
  "''games:new'' \<in> set [''games:new''] \<and>
   fst (resolve_sides (ex_env ''games:new'' fetch_ok create_checked save_ok) 1 [[10, 7]] w0)
     = Inr [[ex_member 10, ex_member 7]] \<and>
   create_game (ex_env ''games:new'' fetch_ok create_checked save_ok)
       [[ex_member 10, ex_member 7]] 1 ''Friendly'' False True []
     = (Inl (ValueError ''Not enough sides''), []) \<and>
   isinstance (ValueError ''Not enough sides'') ''ValueError'' \<and>
   fst (new_game (ex_env ''games:new'' fetch_ok create_checked save_ok)
        (ex_game [] [[10, 7]]) [''games:new''] w0)
     = Inl (HTTPException 400 ''Not enough sides'' []) \<and>
   effects (snd (new_game (ex_env ''games:new'' fetch_ok create_checked save_ok)
        (ex_game [] [[10, 7]]) [''games:new''] w0))
     = [Log INFO ''games-write attempted with game info: Friendly / 1 / [[10, 7]]'',
        FetchMember 1 7,
        CreateGame [[ex_member 10, ex_member 7]] 1 ''Friendly'' False True,
        Log ERROR ''FAILED games:write call (creation error): Not enough sides''] \<and>
   fst (resolve_sides (ex_env ''games:new'' (\<lambda>g u. Inl discord_NotFound) create_checked save_ok)
          1 [[10, 7]] w0)
     = Inl (HTTPException 404 ''Discord member not found by ID 7.'' []) \<and>
   fst (new_game (ex_env ''games:new'' (\<lambda>g u. Inl discord_NotFound) create_checked save_ok)
        (ex_game [] [[10, 7]]) [''games:new''] w0)
     = Inl (HTTPException 404 ''Discord member not found by ID 7.'' []) \<and>
   filter is_mutation (effects (snd (new_game
        (ex_env ''games:new'' (\<lambda>g u. Inl discord_NotFound) create_checked save_ok)
        (ex_game [] [[10, 7]]) [''games:new''] w0))) = []"
  using new_game_validates_after_resolution
    [of "[''games:new'']" "ex_env ''games:new'' fetch_ok create_checked save_ok"
        "ex_game [] [[10, 7]]" w0]
    new_game_validates_after_resolution
    [of "[''games:new'']" "ex_env ''games:new'' (\<lambda>g u. Inl discord_NotFound) create_checked save_ok"
        "ex_game [] [[10, 7]]" w0]
  by (simp add: new_game_def get_discord_member_def ex_env_def ex_game_def w0_def ex_guild_def
        fetch_ok_def create_checked_def ValueError_def isinstance_def cache_misses_def emit_def
        discord_NotFound_def str_int_def str_nat.simps digit_char_def
        repr_int_list_list_def repr_int_list_def Let_def)

text \<open>
  C4, as stated: the warnings of the create operation are returned to the API caller with
  the game's id. It fails: \<^verbatim>\<open>new_game\<close> binds them to \<^verbatim>\<open>_warnings\<close> and returns
  \<^verbatim>\<open>{'game_id': db_game.id}\<close> only. A run whose create operation warns of a side
  imbalance answers exactly as a run without warning.
\<close>

theorem warnings_dropped_counterexample:
  "create_game (ex_env ''games:new'' fetch_ok (create_ok [''side imbalance'']) save_ok)
       [[ex_member 10], [ex_member 11, ex_member 12]] 1 ''Friendly'' False True []
     = (Inr (\<lparr>game_id = 1, game_notes = []\<rparr>, [''side imbalance'']),
        [\<lparr>game_id = 1, game_notes = []\<rparr>]) \<and>
   fst (new_game (ex_env ''games:new'' fetch_ok (create_ok [''side imbalance'']) save_ok)
          (ex_game [] [[10], [11, 12]]) [''games:new''] w0)
     = Inr (JObject [(''game_id'', JInt 1)]) \<and>
   fst (new_game (ex_env ''games:new'' fetch_ok (create_ok [''side imbalance'']) save_ok)
          (ex_game [] [[10], [11, 12]]) [''games:new''] w0)
     = fst (new_game (ex_env ''games:new'' fetch_ok (create_ok []) save_ok)
          (ex_game [] [[10], [11, 12]]) [''games:new''] w0)"
  by (simp add: new_game_def get_discord_member_def attach_notes_def ex_env_def ex_game_def
        w0_def ex_guild_def fetch_ok_def create_ok_def emit_def Let_def)

text \<open>
  C4, amended: the warnings of the create operation are discarded. The result and the
  effects of \<^verbatim>\<open>new_game\<close> are the same when the create operation's warnings are
  removed, and the answer of a successful run is the object with the single key
  \<^verbatim>\<open>game_id\<close>.
\<close>

theorem new_game_discards_warnings:
  "new_game (env\<lparr>create_game := without_warnings (create_game env)\<rparr>) game scps w
     = new_game env game scps w \<and>
   (\<forall>r. fst (new_game env game scps w) = Inr r \<longrightarrow> (\<exists>i. r = JObject [(''game_id'', JInt i)]))"
proof
  show "new_game (env\<lparr>create_game := without_warnings (create_game env)\<rparr>) game scps w
     = new_game env game scps w"
    by (simp add: new_game_def Let_def resolve_sides_create_irrelevant
          attach_notes_create_irrelevant without_warnings_def
          split: prod.splits sum.splits)
  show "\<forall>r. fst (new_game env game scps w) = Inr r \<longrightarrow> (\<exists>i. r = JObject [(''game_id'', JInt i)])"
    by (auto simp add: new_game_def Let_def split: prod.splits sum.splits if_splits)
qed

text \<open>
  The theorem at a run whose create operation warns of a side imbalance.
\<close>

theorem new_game_discards_warnings_witness:
  "fst (new_game (ex_env ''games:new'' fetch_ok (create_ok [''side imbalance'']) save_ok)
          (ex_game [] [[10], [11, 12]]) [''games:new''] w0)
     = Inr (JObject [(''game_id'', JInt 1)]) \<and>
   (\<exists>i. JObject [(''game_id'', JInt 1)] = JObject [(''game_id'', JInt i)]) \<and>
   new_game ((ex_env ''games:new'' fetch_ok (create_ok [''side imbalance'']) save_ok)
               \<lparr>create_game := without_warnings (create_ok [''side imbalance''])\<rparr>)
          (ex_game [] [[10], [11, 12]]) [''games:new''] w0
     = new_game (ex_env ''games:new'' fetch_ok (create_ok [''side imbalance'']) save_ok)
          (ex_game [] [[10], [11, 12]]) [''games:new''] w0"
  using new_game_discards_warnings
    [of "ex_env ''games:new'' fetch_ok (create_ok [''side imbalance'']) save_ok"
        "ex_game [] [[10], [11, 12]]" "[''games:new'']" w0]
  by (simp add: new_game_def get_discord_member_def attach_notes_def ex_env_def ex_game_def
        w0_def ex_guild_def fetch_ok_def create_ok_def emit_def Let_def without_warnings_def)

text \<open>
  C5, as stated: a failure of the note-attach step is reported to the caller as a non-fatal
  warning rather than an error. It fails: \<^verbatim>\<open>db_game.save()\<close> is not guarded, so its
  exception leaves the handler and the caller gets 500; the record created before stays in
  the store.
\<close>

theorem note_attach_failure_counterexample:
  "fst (new_game (ex_env ''games:new'' fetch_ok (create_ok []) save_fails)
          (ex_game ''bring snacks'' [[10], [11]]) [''games:new''] w0) = Inl (Uncaught db_error) \<and>
   status_of (Uncaught db_error) = 500 \<and>
   db (snd (new_game (ex_env ''games:new'' fetch_ok (create_ok []) save_fails)
          (ex_game ''bring snacks'' [[10], [11]]) [''games:new''] w0))
     = [\<lparr>game_id = 1, game_notes = []\<rparr>]"
  by (simp add: new_game_def get_discord_member_def attach_notes_def ex_env_def ex_game_def
        w0_def ex_guild_def fetch_ok_def create_ok_def save_fails_def emit_def Let_def)

text \<open>
  C5, amended: when a note is supplied, it is attached by a second mutation after the
  create (the create call, then the save of the record with the note, in that order, and
  no other mutation); the store is left as the save left it, so a failure of the save
  does not roll the created record back; that failure reaches the caller as an uncaught
  exception (500), a success as the game's id.
\<close>

theorem note_attached_after_create:
  assumes "''games:new'' \<in> set scps"
    and "fst (resolve_sides env (new_guild_id game) (sides_discord_ids game) w) = Inr users"
    and "create_game env users (new_guild_id game) (game_name game) (is_ranked game)
           (is_mobile game) (db w) = (Inr (g, ws), d)"
    and "new_notes game \<noteq> []"
    and "save env (g\<lparr>game_notes := new_notes game\<rparr>) d = (r, d')"
  shows "filter is_mutation (effects (snd (new_game env game scps w)))
           = filter is_mutation (effects w)
             @ [CreateGame users (new_guild_id game) (game_name game) (is_ranked game)
                  (is_mobile game),
                SaveGame (g\<lparr>game_notes := new_notes game\<rparr>)] \<and>
         db (snd (new_game env game scps w)) = d' \<and>
         fst (new_game env game scps w)
           = (case r of Inl e \<Rightarrow> Inl (Uncaught e)
              | Inr u \<Rightarrow> Inr (JObject [(''game_id'', JInt (game_id g))]))"
  using assms(1,3,4,5) resolve_sides_from [OF assms(2)]
  by (simp add: new_game_def attach_notes_def Let_def split: sum.splits)

text \<open>
  The theorem at a run whose save fails.
\<close>

theorem note_attached_after_create_witness:
  "fst (resolve_sides (ex_env ''games:new'' fetch_ok (create_ok []) save_fails) 1 [[10], [11]] w0)
     = Inr [[ex_member 10], [ex_member 11]] \<and>
   create_game (ex_env ''games:new'' fetch_ok (create_ok []) save_fails)
       [[ex_member 10], [ex_member 11]] 1 ''Friendly'' False True []
     = (Inr (\<lparr>game_id = 1, game_notes = []\<rparr>, []), [\<lparr>game_id = 1, game_notes = []\<rparr>]) \<and>
   save (ex_env ''games:new'' fetch_ok (create_ok []) save_fails)
       \<lparr>game_id = 1, game_notes = ''bring snacks''\<rparr> [\<lparr>game_id = 1, game_notes = []\<rparr>]
     = (Inl db_error, [\<lparr>game_id = 1, game_notes = []\<rparr>]) \<and>
   filter is_mutation (effects (snd (new_game (ex_env ''games:new'' fetch_ok (create_ok []) save_fails)
          (ex_game ''bring snacks'' [[10], [11]]) [''games:new''] w0)))
     = [CreateGame [[ex_member 10], [ex_member 11]] 1 ''Friendly'' False True,
        SaveGame \<lparr>game_id = 1, game_notes = ''bring snacks''\<rparr>] \<and>
   db (snd (new_game (ex_env ''games:new'' fetch_ok (create_ok []) save_fails)
          (ex_game ''bring snacks'' [[10], [11]]) [''games:new''] w0))
     = [\<lparr>game_id = 1, game_notes = []\<rparr>] \<and>
   fst (new_game (ex_env ''games:new'' fetch_ok (create_ok []) save_fails)
          (ex_game ''bring snacks'' [[10], [11]]) [''games:new''] w0) = Inl (Uncaught db_error)"
  using note_attached_after_create
    [of "[''games:new'']" "ex_env ''games:new'' fetch_ok (create_ok []) save_fails"
        "ex_game ''bring snacks'' [[10], [11]]" w0 "[[ex_member 10], [ex_member 11]]"
        "\<lparr>game_id = 1, game_notes = []\<rparr>" "[]" "[\<lparr>game_id = 1, game_notes = []\<rparr>]"
        "Inl db_error" "[\<lparr>game_id = 1, game_notes = []\<rparr>]"]
  by (simp add: get_discord_member_def ex_env_def ex_game_def w0_def ex_guild_def
        fetch_ok_def create_ok_def save_fails_def emit_def Let_def)

text \<open>
  C10: a body that validates and omits \<^verbatim>\<open>is_ranked\<close> gives \<^verbatim>\<open>False\<close>, one that omits
  \<^verbatim>\<open>is_mobile\<close> gives \<^verbatim>\<open>True\<close>, one that omits \<^verbatim>\<open>notes\<close> gives the empty
  string, and then \<^verbatim>\<open>new_game\<close> makes no save call; the handler runs on the game with
  the defaults applied.
\<close>

theorem omitted_fields_take_defaults:
  assumes "parse_NewGame b = Some game"
  shows "(body_is_ranked b = None \<longrightarrow> is_ranked game = False) \<and>
         (body_is_mobile b = None \<longrightarrow> is_mobile game = True) \<and>
         (body_notes b = None \<longrightarrow>
            new_notes game = [] \<and>
            filter is_save (effects (snd (new_game env game scps w))) = filter is_save (effects w)) \<and>
         (\<forall>tokens w'. get_scopes env c w = (Inr tokens, w') \<longrightarrow>
            route_new_game env c b w = new_game env game tokens w')"
proof (intro conjI impI allI)
  from assms show "body_is_ranked b = None \<Longrightarrow> is_ranked game = False"
    by (auto simp add: parse_NewGame_def split: option.splits)
  from assms show "body_is_mobile b = None \<Longrightarrow> is_mobile game = True"
    by (auto simp add: parse_NewGame_def split: option.splits)
  from assms show n: "body_notes b = None \<Longrightarrow> new_notes game = []"
    by (auto simp add: parse_NewGame_def split: option.splits)
  show "body_notes b = None \<Longrightarrow>
      filter is_save (effects (snd (new_game env game scps w))) = filter is_save (effects w)"
    using n new_game_without_note_no_save by blast
  from assms show "get_scopes env c w = (Inr tokens, w') \<Longrightarrow>
      route_new_game env c b w = new_game env game tokens w'" for tokens w'
    by (simp add: route_new_game_def)
qed

text \<open>
  The theorem at a body with the three required fields only.
\<close>

theorem omitted_fields_take_defaults_witness:
  "parse_NewGame ex_body
     = Some \<lparr>game_name = ''Friendly'', new_guild_id = 1, is_ranked = False, is_mobile = True,
             new_notes = [], sides_discord_ids = [[10, 11], [12, 13]]\<rparr> \<and>
   body_is_ranked ex_body = None \<and> body_is_mobile ex_body = None \<and> body_notes ex_body = None \<and>
   fst (get_scopes (ex_env ''games:new'' fetch_ok create_checked save_ok) ex_credentials w0)
     = Inr [''games:new''] \<and>
   filter is_mutation (effects (snd (route_new_game
        (ex_env ''games:new'' fetch_ok create_checked save_ok) ex_credentials ex_body w0)))
     = [CreateGame [[ex_member 10, ex_member 11], [ex_member 12, ex_member 13]] 1 ''Friendly''
          False True]"
  using omitted_fields_take_defaults
     [where b = ex_body and game = "ex_game [] [[10, 11], [12, 13]]"
        and env = "ex_env ''games:new'' fetch_ok create_checked save_ok"
        and scps = "[''games:new'']" and w = w0 and c = ex_credentials]
  by (simp add: parse_NewGame_def ex_body_def ex_game_def route_new_game_def get_scopes_def
        new_game_def get_discord_member_def attach_notes_def ex_env_def ex_authenticate_def
        ex_credentials_def str_split_def isspace_def w0_def ex_guild_def fetch_ok_def
        create_checked_def create_ok_def emit_def Let_def)

section \<open>Properties of the command surface\<close>

text \<open>
  C6, as stated: the reply for an exception outside the ignored classes is a generic
  message that never includes raw internal error text. It fails: the reply is
  \<^verbatim>\<open>f'Unhandled error: {exc}'\<close>, which carries the exception's own text.
\<close>

theorem unhandled_error_reply_counterexample:
  "\<not> list_ex (isinstance internal_error) ignored \<and>
   replies (on_command_error guild_ctx internal_error)
     = [''Unhandled error: Command raised an exception: OperationalError: could not connect to db at 10.0.0.5''] \<and>
   replies (on_command_error guild_ctx internal_error)
     \<noteq> replies (on_command_error guild_ctx (internal_error\<lparr>exc_str := ''KeyError: 42''\<rparr>))"
  by (simp add: on_command_error_def guild_ctx_def ex_command_def internal_error_def
        ignored_def isinstance_def)

text \<open>
  C6, amended: for an exception that is not an instance of the three ignored classes, in a
  command without a local error handler, the reply sent to the invoking channel is
  "Unhandled error: " followed by the text of the exception; for an ignored exception, or
  a command with a local handler, nothing is sent.
\<close>

theorem unhandled_error_reply_carries_text:
  "replies (on_command_error c exc) =
     (if (case ctx_command c of None \<Rightarrow> False | Some cmd \<Rightarrow> has_on_error cmd)
         \<or> list_ex (isinstance exc) ignored
      then []
      else [''Unhandled error: '' @ exc_str exc])"
  by (simp add: on_command_error_def)

text \<open>
  C7: for a message of a guild whose id is not a key of the configuration,
  \<^verbatim>\<open>get_prefix\<close> logs the anomaly at error level and returns, without raising, the mention
  triggers followed by the default prefix.
\<close>

theorem unknown_guild_falls_back:
  assumes "message_guild msg = Some g"
    and "guild_id g \<notin> set (map fst (config s))"
  shows "get_prefix s b msg =
           (Inr (when_mentioned b msg @ [get_setting s ''command_prefix'']),
            [Log ERROR (''Message received not from allowed guild. ID '' @ str_int (guild_id g))])"
  using assms by (simp add: get_prefix_def when_mentioned_or_def)

text \<open>
  The theorem at a message of guild 2, when only guild 1 is configured.
\<close>

theorem unknown_guild_falls_back_witness:
  "message_guild \<lparr>message_guild = Some (ex_guild\<lparr>guild_id := 2\<rparr>)\<rparr> = Some (ex_guild\<lparr>guild_id := 2\<rparr>) \<and>
   guild_id (ex_guild\<lparr>guild_id := 2\<rparr>) \<notin> set (map fst (config ex_settings)) \<and>
   get_prefix ex_settings ex_bot \<lparr>message_guild = Some (ex_guild\<lparr>guild_id := 2\<rparr>)\<rparr>
     = (Inr [''<@99> '', ''<@!99> '', ''!''],
        [Log ERROR ''Message received not from allowed guild. ID 2''])"
  using unknown_guild_falls_back
     [of "\<lparr>message_guild = Some (ex_guild\<lparr>guild_id := 2\<rparr>)\<rparr>" "ex_guild\<lparr>guild_id := 2\<rparr>"
         ex_settings ex_bot]
  by (simp add: ex_settings_def ex_guild_def ex_bot_def when_mentioned_def str_int_def
        str_nat.simps digit_char_def)

text \<open>
  A message with no guild at all has no identifier to look up; for it the \<^verbatim>\<open>else\<close>
  branch raises while it formats the log record.
\<close>

lemma direct_message_prefix_raises:
  "message_guild msg = None \<Longrightarrow> get_prefix s b msg = (Inl (NoneType_has_no_attribute ''id''), [])"
  by (simp add: get_prefix_def)

text \<open>
  A member of the main guild whose top role is the required one: the prefix is resolved,
  both checks pass, and the command is dispatched.
\<close>

lemma guild_command_dispatched:
  "process_commands ex_settings ex_bot guild_message
     = (None, [Dispatch ''newgame'', DbClose])"
  by (simp add: process_commands_def get_context_def get_prefix_def when_mentioned_or_def
        when_mentioned_def startswith_def get_word_def isspace_def
        invoke_def can_run_def bot_checks_def globally_block_dms_def is_user_def
        role_lt_def guild_message_def ex_settings_def ex_guild_def ex_command_def ex_bot_def
        rider_def everyone_def str_int_def str_nat.simps digit_char_def Let_def)

text \<open>
  A context without a guild fails the first check, whoever its author is, and the second
  check is not evaluated.
\<close>

lemma guildless_context_fails_first_check:
  "ctx_guild c = None \<Longrightarrow> globally_block_dms c = False \<and> can_run s c = (Inr False, [])"
  by (simp add: globally_block_dms_def can_run_def bot_checks_def)

text \<open>
  A direct message never gets that far: \<^verbatim>\<open>get_prefix\<close> is the bot's
  \<^verbatim>\<open>command_prefix\<close>, it runs while the context is built, and for a message without a
  guild it raises.
\<close>

lemma direct_message_never_reaches_checks:
  assumes "message_guild msg = None" and "\<not> author_is_bot msg"
    and "member_id (message_author msg) \<noteq> bot_user_id b"
  shows "get_context s b msg = (Inl (NoneType_has_no_attribute ''id''), [])"
    and "process_commands s b msg = (Some (NoneType_has_no_attribute ''id''), [])"
  using assms by (simp_all add: process_commands_def get_context_def get_prefix_def Let_def)

text \<open>
  C8: a command that arrives as a direct message should be refused by the check
  \<^verbatim>\<open>globally_block_dms\<close> ("Should prevent bot from being able to be controlled via DM"),
  which is false for a context without a guild. The program does not get there: for the
  direct message \<^verbatim>\<open>$newgame\<close>, \<^verbatim>\<open>get_prefix\<close> raises \<^verbatim>\<open>AttributeError\<close>, so
  does \<^verbatim>\<open>get_context\<close>, and \<^verbatim>\<open>process_commands\<close> ends with that exception; no
  check runs, no \<^verbatim>\<open>CheckFailure\<close> is raised, and the command is not dispatched.
\<close>

theorem direct_message_raises_before_checks:
  "message_guild dm_message = None \<and>
   get_prefix ex_settings ex_bot dm_message = (Inl (NoneType_has_no_attribute ''id''), []) \<and>
   get_context ex_settings ex_bot dm_message = (Inl (NoneType_has_no_attribute ''id''), []) \<and>
   process_commands ex_settings ex_bot dm_message
     = (Some (NoneType_has_no_attribute ''id''), []) \<and>
   globally_block_dms dm_ctx = False \<and>
   can_run ex_settings dm_ctx = (Inr False, [])"
  by (simp add: process_commands_def get_context_def get_prefix_def Let_def dm_message_def
        ex_bot_def ex_member_def globally_block_dms_def can_run_def bot_checks_def dm_ctx_def)

end
